theory Spec2Isabelle
  imports Complex_Main
begin

section \<open>JavaScript values and thrown values\<close>

text \<open>
  The handlers receive parsed JSON (\<^verbatim>\<open>request: any\<close>, \<^verbatim>\<open>req.body\<close>, \<^verbatim>\<open>response.data\<close>),
  so the values are those of JavaScript after \<^verbatim>\<open>JSON.parse\<close>, with \<^verbatim>\<open>undefined\<close> for
  an absent property. A number is the rational value of the parsed double; an object is
  the list of its own properties (keys distinct, as in a parsed object).
\<close>

datatype jsval =
    Undefined
  | Null
  | Bool bool
  | Num rat
  | Str string
  | Arr "jsval list"
  | Obj "(string \<times> jsval) list"

text \<open>The conversion to boolean that \<^verbatim>\<open>!v\<close> and \<^verbatim>\<open>if (v)\<close> apply.\<close>

fun truthy :: "jsval \<Rightarrow> bool" where
  "truthy Undefined = False"
| "truthy Null = False"
| "truthy (Bool b) = b"
| "truthy (Num n) = (n \<noteq> 0)"
| "truthy (Str s) = (s \<noteq> [])"
| "truthy (Arr xs) = True"
| "truthy (Obj kvs) = True"

text \<open>
  \<^verbatim>\<open>v.k\<close> for a value that is neither \<^verbatim>\<open>undefined\<close> nor \<^verbatim>\<open>null\<close> and a key that no
  prototype defines (\<^verbatim>\<open>latitude\<close>, \<^verbatim>\<open>longitude\<close>, \<^verbatim>\<open>current\<close>): the own property of an
  object, \<^verbatim>\<open>undefined\<close> otherwise.
\<close>

fun own_prop :: "jsval \<Rightarrow> string \<Rightarrow> jsval" where
  "own_prop (Obj kvs) k = (case map_of kvs k of None \<Rightarrow> Undefined | Some v \<Rightarrow> v)"
| "own_prop v k = Undefined"

text \<open>
  The error codes of the SDK's \<^verbatim>\<open>ErrorCode\<close> enum that the handlers use, with their numeric
  values and the decimal text a template literal gives them.
\<close>

datatype ErrorCode = MethodNotFound | InvalidParams | InternalError

fun ErrorCode_value :: "ErrorCode \<Rightarrow> int" where
  "ErrorCode_value MethodNotFound = -32601"
| "ErrorCode_value InvalidParams = -32602"
| "ErrorCode_value InternalError = -32603"

fun ErrorCode_text :: "ErrorCode \<Rightarrow> string" where
  "ErrorCode_text MethodNotFound = ''-32601''"
| "ErrorCode_text InvalidParams = ''-32602''"
| "ErrorCode_text InternalError = ''-32603''"

text \<open>
  What a \<^verbatim>\<open>throw\<close> (or a rejected promise) carries. \<^verbatim>\<open>McpError\<close> is the SDK's class
  \<^verbatim>\<open>class McpError extends Error\<close>, with its code and its message; \<^verbatim>\<open>JsError\<close> is any other
  instance of \<^verbatim>\<open>Error\<close> (\<^verbatim>\<open>Error\<close>, \<^verbatim>\<open>TypeError\<close>, \<^verbatim>\<open>AxiosError\<close>) with its message;
  \<^verbatim>\<open>NonError\<close> is a thrown value that is no \<^verbatim>\<open>Error\<close>.
\<close>

datatype thrown =
    McpError ErrorCode string
  | JsError string
  | NonError jsval

fun instanceof_Error :: "thrown \<Rightarrow> bool" where
  "instanceof_Error (McpError c m) = True"
| "instanceof_Error (JsError m) = True"
| "instanceof_Error (NonError v) = False"

fun error_message :: "thrown \<Rightarrow> string" where
  "error_message (McpError c m) = m"
| "error_message (JsError m) = m"
| "error_message (NonError v) = []"

fun error_code :: "thrown \<Rightarrow> ErrorCode option" where
  "error_code (McpError c m) = Some c"
| "error_code (JsError m) = None"
| "error_code (NonError v) = None"

text \<open>
  \<^verbatim>\<open>new McpError(code, message)\<close>: the SDK's constructor calls
  \<^verbatim>\<open>super(`MCP error ${code}: ${message}`)\<close>, so this is the message the object has.
\<close>

definition new_McpError :: "ErrorCode \<Rightarrow> string \<Rightarrow> thrown" where
  "new_McpError c m = McpError c (''MCP error '' @ ErrorCode_text c @ '': '' @ m)"

text \<open>
  Reading a property of \<^verbatim>\<open>undefined\<close> or \<^verbatim>\<open>null\<close> throws a \<^verbatim>\<open>TypeError\<close> (the message is
  the one of V8).
\<close>

fun js_typename :: "jsval \<Rightarrow> string" where
  "js_typename Null = ''null''"
| "js_typename v = ''undefined''"

definition read_prop :: "jsval \<Rightarrow> string \<Rightarrow> thrown + jsval" where
  "read_prop v k =
     (if v = Undefined \<or> v = Null
      then Inl (JsError (''Cannot read properties of '' @ js_typename v @
                          '' (reading '' @ [CHR 0x27] @ k @ [CHR 0x27] @ '')''))
      else Inr (own_prop v k))"

text \<open>
  A template literal converts each value it interpolates to a string, and the conversion
  of an object can throw. An object of parsed JSON inherits \<^verbatim>\<open>toString\<close> from
  \<^verbatim>\<open>Object.prototype\<close> and converts to \<^verbatim>\<open>[object Object]\<close>, unless it has an own property
  \<^verbatim>\<open>toString\<close>: that is a JSON value, so it cannot be called, \<^verbatim>\<open>valueOf\<close> (own, or the
  inherited one, which returns the object) gives no primitive either, and the conversion
  throws a \<^verbatim>\<open>TypeError\<close>. An array converts by \<^verbatim>\<open>join\<close>, which converts every element other
  than \<^verbatim>\<open>null\<close> and \<^verbatim>\<open>undefined\<close>. The other values always convert. The string itself goes
  to the console only, so the model keeps whether the conversion throws.
\<close>

fun ToString_throws :: "jsval \<Rightarrow> bool" where
  "ToString_throws Undefined = False"
| "ToString_throws Null = False"
| "ToString_throws (Bool b) = False"
| "ToString_throws (Num n) = False"
| "ToString_throws (Str s) = False"
| "ToString_throws (Arr xs) = list_ex ToString_throws xs"
| "ToString_throws (Obj kvs) = (map_of kvs ''toString'' \<noteq> None)"

definition cannot_convert :: thrown where
  "cannot_convert = JsError ''Cannot convert object to primitive value''"


section \<open>The call-tool handler\<close>

text \<open>
  \<^verbatim>\<open>request.params\<close> after the SDK has parsed the request with \<^verbatim>\<open>CallToolRequestSchema\<close>:
  \<^verbatim>\<open>name\<close> is a string, \<^verbatim>\<open>arguments\<close> is an object or absent (\<^verbatim>\<open>Undefined\<close>).
\<close>

record CallToolRequest =
  params_name :: string
  params_arguments :: jsval

text \<open>
  The configuration both constructors give \<^verbatim>\<open>axios.create\<close>.
\<close>

record axios_config =
  timeout :: nat
  baseURL :: string
  headers :: "(string \<times> string) list"

definition Weather_axiosInstance :: axios_config where
  "Weather_axiosInstance =
     \<lparr>timeout = 5000,
      baseURL = ''https://api.open-meteo.com/v1'',
      headers = [(''Accept'', ''application/json''), (''Content-Type'', ''application/json'')]\<rparr>"

definition MCPServer_axiosInstance :: axios_config where
  "MCPServer_axiosInstance =
     \<lparr>timeout = 5000,
      baseURL = ''https://api.open-meteo.com/v1'',
      headers = [(''Accept'', ''application/json''), (''Content-Type'', ''application/json'')]\<rparr>"

text \<open>
  The outbound call \<^verbatim>\<open>this.axiosInstance.get(url, {params})\<close> is the path and the query
  parameters in the order the object literal lists them. The weather service is a
  parameter of the handler: it answers a call with the body of a 2xx response
  (\<^verbatim>\<open>response.data\<close>) or the promise rejects (network failure, timeout, other status).
  A handler's outcome is what its promise settles with, and the calls it issued; what it
  writes to the console is left out.
\<close>

type_synonym get_call = "string \<times> (string \<times> jsval) list"

datatype axios_result = Resolves jsval | Rejects thrown

type_synonym outcome = "(thrown + jsval) \<times> get_call list"

definition forecast_call :: "jsval \<Rightarrow> jsval \<Rightarrow> get_call" where
  "forecast_call lat lon =
     (''/forecast'',
      [(''latitude'', lat),
       (''longitude'', lon),
       (''current'', Str ''temperature_2m,wind_speed_10m''),
       (''hourly'', Str ''temperature_2m,relative_humidity_2m,wind_speed_10m'')])"

subsection \<open>stdio variant: \<^verbatim>\<open>Weather.setupToolHandlers\<close> in main.ts\<close>

text \<open>
  The body of the \<^verbatim>\<open>try\<close> block; the function has no \<^verbatim>\<open>return\<close>, so it resolves with
  \<^verbatim>\<open>undefined\<close>. Before the call, \<^verbatim>\<open>console.error\<close> is given a template literal that
  interpolates the two arguments, latitude first.
\<close>

definition Weather_try :: "(get_call \<Rightarrow> axios_result) \<Rightarrow> CallToolRequest \<Rightarrow> outcome" where
  "Weather_try axios_get request =
     (if params_name request \<notin> set [''get-weather'']
      then (Inl (new_McpError MethodNotFound (''Unknown tool: '' @ params_name request)), [])
      else
        let args = params_arguments request in
        (case read_prop args ''latitude'' of
           Inl e \<Rightarrow> (Inl e, [])
         | Inr latitude \<Rightarrow>
            (if \<not> truthy latitude
             then (Inl (new_McpError InvalidParams ''Missing required parameter: latitude''), [])
             else
               (case read_prop args ''longitude'' of
                  Inl e \<Rightarrow> (Inl e, [])
                | Inr longitude \<Rightarrow>
                   (if \<not> truthy longitude
                    then (Inl (new_McpError InvalidParams ''Missing required parameter: longitude''), [])
                    else if params_name request = ''get-weather''
                    then
                      (if ToString_throws latitude \<or> ToString_throws longitude
                       then (Inl cannot_convert, [])
                       else
                         let call = forecast_call latitude longitude in
                         (case axios_get call of
                            Rejects e \<Rightarrow> (Inl e, [call])
                          | Resolves data \<Rightarrow>
                             (if \<not> truthy data \<or> \<not> truthy (own_prop data ''current'')
                              then (Inl (JsError ''No current weather data returned from Weather API''), [call])
                              else (Inr Undefined, [call]))))
                    else (Inr Undefined, []))))))"

text \<open>The \<^verbatim>\<open>catch\<close> block.\<close>

definition Weather_catch :: "thrown \<Rightarrow> thrown" where
  "Weather_catch error =
     (if instanceof_Error error
      then new_McpError InternalError (''Failed to fetch data: '' @ error_message error)
      else error)"

definition Weather_callTool :: "(get_call \<Rightarrow> axios_result) \<Rightarrow> CallToolRequest \<Rightarrow> outcome" where
  "Weather_callTool axios_get request =
     (case Weather_try axios_get request of
        (Inl error, calls) \<Rightarrow> (Inl (Weather_catch error), calls)
      | (Inr result, calls) \<Rightarrow> (Inr result, calls))"

subsection \<open>HTTP variant: \<^verbatim>\<open>MCPServer.setupTools\<close>\<close>

definition MCPServer_try :: "(get_call \<Rightarrow> axios_result) \<Rightarrow> CallToolRequest \<Rightarrow> outcome" where
  "MCPServer_try axios_get request =
     (if params_name request \<notin> set [''get-weather'']
      then (Inl (new_McpError MethodNotFound (''Unknown tool: '' @ params_name request)), [])
      else
        let args = params_arguments request in
        (case read_prop args ''latitude'' of
           Inl e \<Rightarrow> (Inl e, [])
         | Inr latitude \<Rightarrow>
            (if \<not> truthy latitude
             then (Inl (new_McpError InvalidParams ''Missing required parameter: latitude''), [])
             else
               (case read_prop args ''longitude'' of
                  Inl e \<Rightarrow> (Inl e, [])
                | Inr longitude \<Rightarrow>
                   (if \<not> truthy longitude
                    then (Inl (new_McpError InvalidParams ''Missing required parameter: longitude''), [])
                    else if params_name request = ''get-weather''
                    then
                      (if ToString_throws latitude \<or> ToString_throws longitude
                       then (Inl cannot_convert, [])
                       else
                         let call = forecast_call latitude longitude in
                         (case axios_get call of
                            Rejects e \<Rightarrow> (Inl e, [call])
                          | Resolves data \<Rightarrow>
                             (if \<not> truthy data \<or> \<not> truthy (own_prop data ''current'')
                              then (Inl (JsError ''No current weather data returned from Weather API''), [call])
                              else (Inr Undefined, [call]))))
                    else (Inr Undefined, []))))))"

definition MCPServer_catch :: "thrown \<Rightarrow> thrown" where
  "MCPServer_catch error =
     (if instanceof_Error error
      then new_McpError InternalError (''Failed to fetch data: '' @ error_message error)
      else error)"

definition MCPServer_callTool :: "(get_call \<Rightarrow> axios_result) \<Rightarrow> CallToolRequest \<Rightarrow> outcome" where
  "MCPServer_callTool axios_get request =
     (case MCPServer_try axios_get request of
        (Inl error, calls) \<Rightarrow> (Inl (MCPServer_catch error), calls)
      | (Inr result, calls) \<Rightarrow> (Inr result, calls))"


section \<open>The HTTP server: \<^verbatim>\<open>MCPServer\<close>\<close>

subsection \<open>Objects used as dictionaries\<close>

text \<open>
  \<^verbatim>\<open>o[k] = v\<close> on the list of own properties: an existing key keeps its place, a new
  one goes last (the order \<^verbatim>\<open>Object.values\<close> enumerates keys that are not array
  indices, as the UUIDs of sessions are not). The same function gives the object spread
  \<^verbatim>\<open>{...o, k: v}\<close>.
\<close>

fun set_prop :: "'k \<Rightarrow> 'v \<Rightarrow> ('k \<times> 'v) list \<Rightarrow> ('k \<times> 'v) list" where
  "set_prop k v [] = [(k, v)]"
| "set_prop k v (p # ps) = (if fst p = k then (k, v) # ps else p # set_prop k v ps)"

text \<open>
  \<^verbatim>\<open>transports\<close> is initialised with the literal \<^verbatim>\<open>{}\<close>, so \<^verbatim>\<open>this.transports[k]\<close>
  finds an own property, or else a member of \<^verbatim>\<open>Object.prototype\<close> (a function, or the
  prototype itself for \<^verbatim>\<open>__proto__\<close>: a truthy value that is no transport), or else
  \<^verbatim>\<open>undefined\<close>.
\<close>

definition Object_prototype_keys :: "string list" where
  "Object_prototype_keys =
     [''constructor'', ''hasOwnProperty'', ''isPrototypeOf'', ''propertyIsEnumerable'',
      ''toLocaleString'', ''toString'', ''valueOf'', ''__proto__'',
      ''__defineGetter__'', ''__defineSetter__'', ''__lookupGetter__'', ''__lookupSetter__'']"

datatype 'a member = Own 'a | Inherited | Absent

definition get_member :: "(string \<times> 'a) list \<Rightarrow> string \<Rightarrow> 'a member" where
  "get_member obj k =
     (case map_of obj k of
        Some v \<Rightarrow> Own v
      | None \<Rightarrow> if k \<in> set Object_prototype_keys then Inherited else Absent)"

subsection \<open>State and environment\<close>

text \<open>
  A transport object is known by its identity. The interval that \<^verbatim>\<open>streamMessages\<close> sets
  is the transport and the counter its callback closes over, and whether it is still
  set. The console holds the arguments of each \<^verbatim>\<open>console.log\<close> and \<^verbatim>\<open>console.error\<close>.
\<close>

type_synonym transport = nat

record stream_interval =
  stream_transport :: transport
  messageCount :: nat
  active :: bool

datatype console_line =
    ConsoleLog string "jsval option"
  | ConsoleError string "thrown option"

record server_state =
  transports :: "(string \<times> transport) list"
  toolInterval :: "bool option"
  intervals :: "stream_interval list"
  sent :: "(transport \<times> jsval) list"
  console :: "console_line list"
  unhandled :: "thrown list"
  next_transport :: transport
  server_closed :: bool

text \<open>
  \<^verbatim>\<open>toolInterval\<close> is \<^verbatim>\<open>undefined\<close> (\<open>None\<close>) or a timer that is set or cancelled;
  \<^verbatim>\<open>sent\<close> lists the calls of \<^verbatim>\<open>transport.send\<close>; \<^verbatim>\<open>unhandled\<close> lists the rejections of
  promises that nothing awaits; \<^verbatim>\<open>next_transport\<close> is the identity that the next
  \<^verbatim>\<open>new StreamableHTTPServerTransport\<close> gets.

  The SDK and the runtime are parameters: whether \<^verbatim>\<open>InitializeRequestSchema.safeParse\<close>
  succeeds on a value, whether \<^verbatim>\<open>server.connect\<close>, \<^verbatim>\<open>transport.handleRequest\<close>,
  \<^verbatim>\<open>transport.send\<close> and \<^verbatim>\<open>server.close\<close> reject (\<open>Some\<close> of what they reject with), and
  \<^verbatim>\<open>transport.sessionId\<close> once the transport has handled its first request.
\<close>

record http_request =
  session_header :: "string option"
  body :: jsval

record env =
  safeParse_success :: "jsval \<Rightarrow> bool"
  connect :: "transport \<Rightarrow> thrown option"
  handleRequest :: "transport \<Rightarrow> http_request \<Rightarrow> thrown option"
  sessionId_after :: "transport \<Rightarrow> http_request \<Rightarrow> string option"
  send :: "transport \<Rightarrow> jsval \<Rightarrow> thrown option"
  close :: "thrown option"

text \<open>
  What a request handler did with \<^verbatim>\<open>res\<close>: it sent a status and a JSON body itself, or
  it left the response to a transport's \<^verbatim>\<open>handleRequest\<close>, or its promise rejected
  before any response.
\<close>

datatype response =
    Json nat jsval
  | ByTransport transport
  | Rejected thrown

definition JSON_RPC :: string where
  "JSON_RPC = ''2.0''"

definition write_console :: "console_line \<Rightarrow> server_state \<Rightarrow> server_state" where
  "write_console l s = s\<lparr>console := console s @ [l]\<rparr>"

subsection \<open>\<^verbatim>\<open>createErrorResponse\<close> and \<^verbatim>\<open>isInitializeRequest\<close>\<close>

text \<open>The identifier is the value \<^verbatim>\<open>randomUUID()\<close> returns at the call.\<close>

definition createErrorResponse :: "string \<Rightarrow> string \<Rightarrow> jsval" where
  "createErrorResponse uuid message =
     Obj [(''jsonrpc'', Str ''2.0''),
          (''error'', Obj [(''code'', Num (-32000)), (''message'', Str message)]),
          (''id'', Str uuid)]"

definition isInitializeRequest :: "(jsval \<Rightarrow> bool) \<Rightarrow> jsval \<Rightarrow> bool" where
  "isInitializeRequest isInitial b =
     (case b of
        Arr requests \<Rightarrow> list_ex isInitial requests
      | _ \<Rightarrow> isInitial b)"

subsection \<open>\<^verbatim>\<open>sendNotification\<close>, \<^verbatim>\<open>streamMessages\<close> and the timers\<close>

text \<open>
  \<^verbatim>\<open>sendNotification\<close> is \<^verbatim>\<open>async\<close>: it calls \<^verbatim>\<open>transport.send\<close> at once and returns a
  promise, which rejects when the send does; it never throws to its caller. No caller
  awaits the promise, so a rejection is handled by nobody.
\<close>

definition sendNotification ::
  "env \<Rightarrow> transport \<Rightarrow> (string \<times> jsval) list \<Rightarrow> server_state \<Rightarrow> thrown option \<times> server_state" where
  "sendNotification E t notification s =
     (let rpcNotification = Obj (set_prop ''jsonrpc'' (Str JSON_RPC) notification)
      in (send E t rpcNotification, s\<lparr>sent := sent s @ [(t, rpcNotification)]\<rparr>))"

definition not_awaited :: "thrown option \<times> server_state \<Rightarrow> server_state" where
  "not_awaited r =
     (case r of
        (None, s) \<Rightarrow> s
      | (Some e, s) \<Rightarrow> s\<lparr>unhandled := unhandled s @ [e]\<rparr>)"

definition logging_message :: "string \<Rightarrow> (string \<times> jsval) list" where
  "logging_message data =
     [(''method'', Str ''notifications/message''),
      (''params'', Obj [(''level'', Str ''info''), (''data'', Str data)])]"

text \<open>
  \<^verbatim>\<open>streamMessages\<close>: nothing in its \<^verbatim>\<open>try\<close> block throws, so its \<^verbatim>\<open>catch\<close> is never
  entered. The new interval is the last of \<^verbatim>\<open>intervals\<close>.
\<close>

definition streamMessages :: "env \<Rightarrow> transport \<Rightarrow> server_state \<Rightarrow> server_state" where
  "streamMessages E t s =
     (let s1 = not_awaited (sendNotification E t (logging_message ''SSE Connection established'') s)
      in s1\<lparr>intervals := intervals s1 @
               [\<lparr>stream_transport = t, messageCount = 0, active = True\<rparr>]\<rparr>)"

text \<open>Decimal text of a counter, as a template literal prints it.\<close>

definition digit :: "nat \<Rightarrow> char" where
  "digit d = ''0123456789'' ! d"

function string_of_nat :: "nat \<Rightarrow> string" where
  "string_of_nat n =
     (if n < 10 then [digit n] else string_of_nat (n div 10) @ [digit (n mod 10)])"
  by pat_completeness auto
termination
  by (relation "measure id") auto

declare string_of_nat.simps [simp del]

text \<open>
  The callback of the interval number \<open>i\<close>, run when the timer fires at the time whose
  \<^verbatim>\<open>toISOString()\<close> is \<open>time\<close>. The calls in its \<^verbatim>\<open>try\<close> block do not throw.
\<close>

definition stream_callback :: "env \<Rightarrow> nat \<Rightarrow> string \<Rightarrow> server_state \<Rightarrow> server_state" where
  "stream_callback E i time s =
     (let iv = intervals s ! i;
          count = messageCount iv + 1;
          t = stream_transport iv;
          s1 = s\<lparr>intervals := (intervals s)[i := iv\<lparr>messageCount := count\<rparr>]\<rparr>;
          data = ''Message '' @ string_of_nat count @ '' at '' @ time;
          s2 = not_awaited (sendNotification E t (logging_message data) s1);
          s3 = write_console (ConsoleLog (''Sent: '' @ data) None) s2
      in if count = 2
         then
           let s4 = s3\<lparr>intervals := (intervals s3)[i := (intervals s3 ! i)\<lparr>active := False\<rparr>]\<rparr>;
               s5 = not_awaited (sendNotification E t (logging_message ''Streaming complete!'') s4)
           in write_console (ConsoleLog ''Stream completed'' None) s5
         else s3)"

text \<open>A timer runs its callback only while it is set.\<close>

definition fire_stream :: "env \<Rightarrow> nat \<Rightarrow> string \<Rightarrow> server_state \<Rightarrow> server_state" where
  "fire_stream E i time s =
     (if i < length (intervals s) \<and> active (intervals s ! i)
      then stream_callback E i time s
      else s)"

text \<open>
  The callback of \<^verbatim>\<open>toolInterval\<close>: \<^verbatim>\<open>setToolSchema()\<close> installs the same handler again,
  then every value of \<^verbatim>\<open>transports\<close> is sent the notification.
\<close>

definition tool_list_changed :: "(string \<times> jsval) list" where
  "tool_list_changed = [(''method'', Str ''notifications/tools/list_changed'')]"

definition tool_callback :: "env \<Rightarrow> server_state \<Rightarrow> server_state" where
  "tool_callback E s =
     fold (\<lambda>t s'. not_awaited (sendNotification E t tool_list_changed s'))
          (map snd (transports s)) s"

definition fire_toolInterval :: "env \<Rightarrow> server_state \<Rightarrow> server_state" where
  "fire_toolInterval E s = (if toolInterval s = Some True then tool_callback E s else s)"

subsection \<open>\<^verbatim>\<open>cleanup\<close>\<close>

definition cleanup :: "env \<Rightarrow> server_state \<Rightarrow> thrown option \<times> server_state" where
  "cleanup E s =
     (close E,
      s\<lparr>toolInterval := map_option (\<lambda>a. False) (toolInterval s), server_closed := True\<rparr>)"

subsection \<open>\<^verbatim>\<open>handleGetRequest\<close> and \<^verbatim>\<open>handlePostRequest\<close>\<close>

definition bad_request :: string where
  "bad_request = ''Bad Request: invalid session ID or method.''"

text \<open>
  A value inherited from \<^verbatim>\<open>Object.prototype\<close> has no \<^verbatim>\<open>handleRequest\<close>, so calling it
  throws a \<^verbatim>\<open>TypeError\<close>. \<^verbatim>\<open>handleGetRequest\<close> has no \<^verbatim>\<open>try\<close>: what is thrown in it rejects
  its promise.
\<close>

definition not_a_function :: thrown where
  "not_a_function = JsError ''transport.handleRequest is not a function''"

definition handleGetRequest ::
  "env \<Rightarrow> string \<Rightarrow> http_request \<Rightarrow> server_state \<Rightarrow> response \<times> server_state" where
  "handleGetRequest E uuid req s =
     (let s1 = write_console (ConsoleLog ''get request received'' None) s;
          reject = (Json 400 (createErrorResponse uuid bad_request), s1)
      in case session_header req of
           None \<Rightarrow> reject
         | Some sessionId \<Rightarrow>
            (if sessionId = [] then reject
             else
               (case get_member (transports s1) sessionId of
                  Absent \<Rightarrow> reject
                | Inherited \<Rightarrow>
                    (Rejected not_a_function,
                     write_console (ConsoleLog (''Establishing SSE stream for session '' @ sessionId) None) s1)
                | Own t \<Rightarrow>
                    (let s2 = write_console (ConsoleLog (''Establishing SSE stream for session '' @ sessionId) None) s1
                     in case handleRequest E t req of
                          Some e \<Rightarrow> (Rejected e, s2)
                        | None \<Rightarrow> (ByTransport t, streamMessages E t s2)))))"

text \<open>
  \<^verbatim>\<open>handlePostRequest\<close>: the three cases of its \<^verbatim>\<open>try\<close> block give a response or what was
  thrown; the \<^verbatim>\<open>catch\<close> block turns a throw into the 500 response.
\<close>

definition truthy_id :: "string option \<Rightarrow> bool" where
  "truthy_id sessionId = (case sessionId of None \<Rightarrow> False | Some i \<Rightarrow> i \<noteq> [])"

definition handlePost_try ::
  "env \<Rightarrow> string \<Rightarrow> http_request \<Rightarrow> server_state \<Rightarrow> (thrown + response) \<times> server_state" where
  "handlePost_try E uuid req s =
     (let existing =
            (case session_header req of
               None \<Rightarrow> Absent
             | Some sessionId \<Rightarrow> if sessionId = [] then Absent else get_member (transports s) sessionId)
      in case existing of
           Own t \<Rightarrow>
             (case handleRequest E t req of
                Some e \<Rightarrow> (Inl e, s)
              | None \<Rightarrow> (Inr (ByTransport t), s))
         | Inherited \<Rightarrow> (Inl not_a_function, s)
         | Absent \<Rightarrow>
             (if \<not> truthy_id (session_header req) \<and> isInitializeRequest (safeParse_success E) (body req)
              then
                (let t = next_transport s;
                     s1 = s\<lparr>next_transport := Suc t\<rparr>
                 in case connect E t of
                      Some e \<Rightarrow> (Inl e, s1)
                    | None \<Rightarrow>
                       (case handleRequest E t req of
                          Some e \<Rightarrow> (Inl e, s1)
                        | None \<Rightarrow>
                           (case sessionId_after E t req of
                              None \<Rightarrow> (Inr (ByTransport t), s1)
                            | Some sessionId \<Rightarrow>
                               (if sessionId = [] then (Inr (ByTransport t), s1)
                                else (Inr (ByTransport t),
                                      s1\<lparr>transports := set_prop sessionId t (transports s1)\<rparr>)))))
              else (Inr (Json 400 (createErrorResponse uuid bad_request)), s)))"

definition handlePostRequest ::
  "env \<Rightarrow> string \<Rightarrow> http_request \<Rightarrow> server_state \<Rightarrow> response \<times> server_state" where
  "handlePostRequest E uuid req s =
     (let s1 = write_console (ConsoleLog ''post request received'' None) s;
          s2 = write_console (ConsoleLog ''body: '' (Some (body req))) s1
      in case handlePost_try E uuid req s2 of
           (Inr r, s3) \<Rightarrow> (r, s3)
         | (Inl error, s3) \<Rightarrow>
             (Json 500 (createErrorResponse uuid ''Internal server error.''),
              write_console (ConsoleError ''Error handling MCP request:'' (Some error)) s3))"

text \<open>The state a new \<^verbatim>\<open>MCPServer\<close> has once its constructor has run \<^verbatim>\<open>setupTools\<close>.\<close>

definition initial_state :: server_state where
  "initial_state =
     \<lparr>transports = [], toolInterval = Some True, intervals = [], sent = [], console = [],
      unhandled = [], next_transport = 0, server_closed = False\<rparr>"


subsection \<open>The operations of a running server\<close>

text \<open>
  Everything that runs on an \<^verbatim>\<open>MCPServer\<close> after its construction: the two request
  handlers, the firing of a stream interval or of \<^verbatim>\<open>toolInterval\<close>, and \<^verbatim>\<open>cleanup\<close>.
\<close>

datatype operation =
    Get string http_request
  | Post string http_request
  | StreamTimer nat string
  | ToolTimer
  | Cleanup

fun step :: "env \<Rightarrow> operation \<Rightarrow> server_state \<Rightarrow> server_state" where
  "step E (Get uuid req) s = snd (handleGetRequest E uuid req s)"
| "step E (Post uuid req) s = snd (handlePostRequest E uuid req s)"
| "step E (StreamTimer i time) s = fire_stream E i time s"
| "step E ToolTimer s = fire_toolInterval E s"
| "step E Cleanup s = snd (cleanup E s)"

subsection \<open>Example requests and environments\<close>

definition example_uuid :: string where
  "example_uuid = ''3b241101-e2bb-4255-8caf-4136c566a962''"

definition example_session :: string where
  "example_session = ''9f0c2d4e-7a1b-4c3d-8e5f-6a7b8c9d0e1f''"

definition initialize_body :: jsval where
  "initialize_body =
     Obj [(''jsonrpc'', Str ''2.0''), (''id'', Num 1), (''method'', Str ''initialize''),
          (''params'', Obj [(''protocolVersion'', Str ''2025-03-26''),
                            (''capabilities'', Obj []),
                            (''clientInfo'', Obj [(''name'', Str ''client''), (''version'', Str ''1.0.0'')])])]"

definition initialize_post :: http_request where
  "initialize_post = \<lparr>session_header = None, body = initialize_body\<rparr>"

definition weather_arguments :: jsval where
  "weather_arguments = Obj [(''latitude'', Str ''52.52''), (''longitude'', Str ''13.41'')]"

text \<open>
  An environment in which every call of the SDK succeeds and a new transport takes
  \<open>example_session\<close> as its identifier; one in which a new transport answers its first
  request without taking an identifier; and one in which sending to transport 0 fails.
\<close>

definition env_ok :: env where
  "env_ok =
     \<lparr>safeParse_success = (\<lambda>v. own_prop v ''method'' = Str ''initialize''),
      connect = (\<lambda>t. None),
      handleRequest = (\<lambda>t r. None),
      sessionId_after = (\<lambda>t r. Some example_session),
      send = (\<lambda>t n. None),
      close = None\<rparr>"

definition env_no_session_id :: env where
  "env_no_session_id = env_ok\<lparr>sessionId_after := (\<lambda>t r. None)\<rparr>"

definition env_send_fails :: env where
  "env_send_fails =
     env_ok\<lparr>send := (\<lambda>t n. if t = 0 then Some (JsError ''Not connected'') else None)\<rparr>"

text \<open>A server with two sessions, and one with a session whose stream interval is set.\<close>

definition two_sessions :: server_state where
  "two_sessions = initial_state\<lparr>transports := [(example_session, 0), (example_uuid, 1)], next_transport := 2\<rparr>"

definition streaming_session :: server_state where
  "streaming_session =
     initial_state\<lparr>transports := [(example_session, 0)], next_transport := 1,
                   intervals := [\<lparr>stream_transport = 0, messageCount = 0, active = True\<rparr>]\<rparr>"


section \<open>Properties of the call-tool handler\<close>

lemmas callTool_defs =
  Weather_callTool_def Weather_try_def Weather_catch_def
  MCPServer_callTool_def MCPServer_try_def MCPServer_catch_def
  new_McpError_def read_prop_def

text \<open>
  Without an \<^verbatim>\<open>arguments\<close> object the first property read throws, and the \<^verbatim>\<open>catch\<close> block
  wraps the \<^verbatim>\<open>TypeError\<close>.
\<close>

lemma absent_arguments_rewrapped:
  assumes "params_name request = ''get-weather''"
    and "params_arguments request = Undefined"
  shows "Weather_callTool axios_get request =
           (Inl (McpError InternalError
             (''MCP error -32603: Failed to fetch data: Cannot read properties of undefined (reading ''
               @ [CHR 0x27] @ ''latitude'' @ [CHR 0x27] @ '')'')), [])"
  using assms by (simp add: callTool_defs)

text \<open>
  An argument that cannot be converted to a string, such as \<^verbatim>\<open>{toString: 1}\<close>, passes the
  two checks, and the template literal throws before the call: the \<^verbatim>\<open>catch\<close> block wraps
  the \<^verbatim>\<open>TypeError\<close>, and no call is issued.
\<close>

lemma unprintable_argument_rewrapped:
  assumes "params_name request = ''get-weather''"
    and "params_arguments request = Obj kvs"
    and "truthy (own_prop (Obj kvs) ''latitude'')"
    and "truthy (own_prop (Obj kvs) ''longitude'')"
    and "ToString_throws (own_prop (Obj kvs) ''latitude'')
         \<or> ToString_throws (own_prop (Obj kvs) ''longitude'')"
  shows "Weather_callTool axios_get request =
           (Inl (McpError InternalError
             ''MCP error -32603: Failed to fetch data: Cannot convert object to primitive value''), [])"
    and "MCPServer_callTool axios_get request =
           (Inl (McpError InternalError
             ''MCP error -32603: Failed to fetch data: Cannot convert object to primitive value''), [])"
  using assms by (auto simp add: callTool_defs cannot_convert_def)

lemma try_blocks_agree: "Weather_try axios_get request = MCPServer_try axios_get request"
  unfolding Weather_try_def MCPServer_try_def by (rule refl)

lemma catch_blocks_agree: "Weather_catch error = MCPServer_catch error"
  unfolding Weather_catch_def MCPServer_catch_def by (rule refl)

text \<open>
  Claim C1: for every call-tool request whose tool name is not \<^verbatim>\<open>get-weather\<close>, the handler
  returns a MethodNotFound-class error and never issues the outbound weather call, in
  both variants.

  The handlers throw the \<^verbatim>\<open>MethodNotFound\<close> error inside their \<^verbatim>\<open>try\<close> block, and
  \<^verbatim>\<open>McpError\<close> is an \<^verbatim>\<open>Error\<close>, so the \<^verbatim>\<open>catch\<close> block replaces it: for every unknown name
  the error that leaves the handler has the code \<^verbatim>\<open>InternalError\<close>. No call is issued.
\<close>

theorem unknown_tool_rewrapped:
  assumes "params_name request \<noteq> ''get-weather''"
  shows "Weather_callTool axios_get request =
           (Inl (McpError InternalError
                  (''MCP error -32603: Failed to fetch data: MCP error -32601: Unknown tool: ''
                   @ params_name request)), [])
       \<and> MCPServer_callTool axios_get request =
           (Inl (McpError InternalError
                  (''MCP error -32603: Failed to fetch data: MCP error -32601: Unknown tool: ''
                   @ params_name request)), [])"
  using assms by (simp add: callTool_defs)

text \<open>The request \<^verbatim>\<open>{name: "get-time", arguments: {latitude: "52.52", longitude: "13.41"}}\<close>.\<close>

theorem unknown_tool_rewrapped_witness:
  "''get-time'' \<noteq> ''get-weather''
   \<and> Weather_callTool (\<lambda>c. Resolves Null)
        \<lparr>params_name = ''get-time'', params_arguments = weather_arguments\<rparr> =
        (Inl (McpError InternalError
               ''MCP error -32603: Failed to fetch data: MCP error -32601: Unknown tool: get-time''), [])
   \<and> MCPServer_callTool (\<lambda>c. Resolves Null)
        \<lparr>params_name = ''get-time'', params_arguments = weather_arguments\<rparr> =
        (Inl (McpError InternalError
               ''MCP error -32603: Failed to fetch data: MCP error -32601: Unknown tool: get-time''), [])"
  using unknown_tool_rewrapped
    [of "\<lparr>params_name = ''get-time'', params_arguments = weather_arguments\<rparr>" "\<lambda>c. Resolves Null"]
  by simp

text \<open>
  Claim C2: for every call-tool request for \<^verbatim>\<open>get-weather\<close>, a missing latitude yields an
  InvalidParams-class error mentioning latitude, a missing longitude (latitude present)
  one mentioning longitude, the latitude error comes first when both are missing, and
  the error is raised before any network call.

  The order of the checks, the texts and the absence of a call are as claimed, but the
  \<^verbatim>\<open>InvalidParams\<close> errors are thrown inside the \<^verbatim>\<open>try\<close> block too: the error that leaves
  the handler has the code \<^verbatim>\<open>InternalError\<close>. A property counts as missing when its value
  is falsy.
\<close>

theorem missing_parameter_rewrapped:
  assumes "params_name request = ''get-weather''"
    and "params_arguments request = Obj kvs"
  shows "(\<not> truthy (own_prop (Obj kvs) ''latitude'') \<longrightarrow>
            Weather_callTool axios_get request =
              (Inl (McpError InternalError
                ''MCP error -32603: Failed to fetch data: MCP error -32602: Missing required parameter: latitude''), [])
          \<and> MCPServer_callTool axios_get request =
              (Inl (McpError InternalError
                ''MCP error -32603: Failed to fetch data: MCP error -32602: Missing required parameter: latitude''), []))
       \<and> (truthy (own_prop (Obj kvs) ''latitude'') \<and> \<not> truthy (own_prop (Obj kvs) ''longitude'') \<longrightarrow>
            Weather_callTool axios_get request =
              (Inl (McpError InternalError
                ''MCP error -32603: Failed to fetch data: MCP error -32602: Missing required parameter: longitude''), [])
          \<and> MCPServer_callTool axios_get request =
              (Inl (McpError InternalError
                ''MCP error -32603: Failed to fetch data: MCP error -32602: Missing required parameter: longitude''), []))"
  using assms by (simp add: callTool_defs)

text \<open>The requests with only a longitude, with only a latitude, and with neither.\<close>

theorem missing_parameter_rewrapped_witness:
  "Weather_callTool (\<lambda>c. Resolves Null)
        \<lparr>params_name = ''get-weather'', params_arguments = Obj [(''longitude'', Str ''13.41'')]\<rparr> =
        (Inl (McpError InternalError
          ''MCP error -32603: Failed to fetch data: MCP error -32602: Missing required parameter: latitude''), [])
   \<and> MCPServer_callTool (\<lambda>c. Resolves Null)
        \<lparr>params_name = ''get-weather'', params_arguments = Obj [(''latitude'', Str ''52.52'')]\<rparr> =
        (Inl (McpError InternalError
          ''MCP error -32603: Failed to fetch data: MCP error -32602: Missing required parameter: longitude''), [])
   \<and> MCPServer_callTool (\<lambda>c. Resolves Null)
        \<lparr>params_name = ''get-weather'', params_arguments = Obj []\<rparr> =
        (Inl (McpError InternalError
          ''MCP error -32603: Failed to fetch data: MCP error -32602: Missing required parameter: latitude''), [])"
  using
    missing_parameter_rewrapped
      [of "\<lparr>params_name = ''get-weather'', params_arguments = Obj [(''longitude'', Str ''13.41'')]\<rparr>"
          "[(''longitude'', Str ''13.41'')]" "\<lambda>c. Resolves Null"]
    missing_parameter_rewrapped
      [of "\<lparr>params_name = ''get-weather'', params_arguments = Obj [(''latitude'', Str ''52.52'')]\<rparr>"
          "[(''latitude'', Str ''52.52'')]" "\<lambda>c. Resolves Null"]
    missing_parameter_rewrapped
      [of "\<lparr>params_name = ''get-weather'', params_arguments = Obj []\<rparr>" "[]" "\<lambda>c. Resolves Null"]
  by simp

text \<open>
  Claim C3: for every \<^verbatim>\<open>get-weather\<close> call whose upstream request succeeds with a body that
  lacks a \<^verbatim>\<open>current\<close> section, the handler yields an InternalError-class error carrying the
  failure's message, never a success; and every \<^verbatim>\<open>Error\<close> raised while fetching or
  interpreting the data is wrapped into an \<^verbatim>\<open>InternalError\<close> whose message is the
  original message after a fixed prefix.

  The upstream request is issued when both arguments are truthy and both convert to a
  string (as every string, number and boolean does; lemma
  \<open>unprintable_argument_rewrapped\<close> is the other case). The first conjunct is the response
  without \<^verbatim>\<open>current\<close> (or with a falsy body or a falsy \<^verbatim>\<open>current\<close>), the second a rejected
  request, the third any \<^verbatim>\<open>Error\<close> the \<^verbatim>\<open>try\<close> block ends with. The call issued is the one
  built from the two arguments.
\<close>

theorem fetch_errors_wrapped:
  assumes "params_name request = ''get-weather''"
    and "params_arguments request = Obj kvs"
    and "truthy (own_prop (Obj kvs) ''latitude'')"
    and "truthy (own_prop (Obj kvs) ''longitude'')"
    and "call = forecast_call (own_prop (Obj kvs) ''latitude'') (own_prop (Obj kvs) ''longitude'')"
    and "\<not> ToString_throws (own_prop (Obj kvs) ''latitude'')"
    and "\<not> ToString_throws (own_prop (Obj kvs) ''longitude'')"
  shows "(axios_get call = Resolves data \<and> (\<not> truthy data \<or> \<not> truthy (own_prop data ''current'')) \<longrightarrow>
            Weather_callTool axios_get request =
              (Inl (McpError InternalError
                ''MCP error -32603: Failed to fetch data: No current weather data returned from Weather API''), [call])
          \<and> MCPServer_callTool axios_get request =
              (Inl (McpError InternalError
                ''MCP error -32603: Failed to fetch data: No current weather data returned from Weather API''), [call]))
       \<and> (axios_get call = Rejects e \<and> instanceof_Error e \<longrightarrow>
            Weather_callTool axios_get request =
              (Inl (McpError InternalError
                (''MCP error -32603: Failed to fetch data: '' @ error_message e)), [call])
          \<and> MCPServer_callTool axios_get request =
              (Inl (McpError InternalError
                (''MCP error -32603: Failed to fetch data: '' @ error_message e)), [call]))
       \<and> (\<forall>any_request thrown calls.
            Weather_try axios_get any_request = (Inl thrown, calls) \<and> instanceof_Error thrown \<longrightarrow>
              Weather_callTool axios_get any_request =
                (Inl (McpError InternalError
                  (''MCP error -32603: Failed to fetch data: '' @ error_message thrown)), calls)
              \<and> MCPServer_callTool axios_get any_request =
                (Inl (McpError InternalError
                  (''MCP error -32603: Failed to fetch data: '' @ error_message thrown)), calls))"
proof -
  have here: "Weather_try axios_get request =
      (case axios_get call of
         Rejects e \<Rightarrow> (Inl e, [call])
       | Resolves data \<Rightarrow>
           if \<not> truthy data \<or> \<not> truthy (own_prop data ''current'')
           then (Inl (JsError ''No current weather data returned from Weather API''), [call])
           else (Inr Undefined, [call]))"
    using assms(1-4) assms(6-7) unfolding assms(5)
    by (simp add: Weather_try_def read_prop_def Let_def del: own_prop.simps)
  have no_current:
    "axios_get call = Resolves data \<and> (\<not> truthy data \<or> \<not> truthy (own_prop data ''current'')) \<longrightarrow>
       Weather_callTool axios_get request =
         (Inl (McpError InternalError
           ''MCP error -32603: Failed to fetch data: No current weather data returned from Weather API''), [call])
       \<and> MCPServer_callTool axios_get request =
         (Inl (McpError InternalError
           ''MCP error -32603: Failed to fetch data: No current weather data returned from Weather API''), [call])"
    unfolding Weather_callTool_def MCPServer_callTool_def try_blocks_agree [symmetric] here
    by (auto simp add: Weather_catch_def MCPServer_catch_def new_McpError_def)
  have rejected:
    "axios_get call = Rejects e \<and> instanceof_Error e \<longrightarrow>
       Weather_callTool axios_get request =
         (Inl (McpError InternalError
           (''MCP error -32603: Failed to fetch data: '' @ error_message e)), [call])
       \<and> MCPServer_callTool axios_get request =
         (Inl (McpError InternalError
           (''MCP error -32603: Failed to fetch data: '' @ error_message e)), [call])"
    unfolding Weather_callTool_def MCPServer_callTool_def try_blocks_agree [symmetric] here
    by (simp add: Weather_catch_def MCPServer_catch_def new_McpError_def)
  have wrap: "\<forall>any_request thrown calls.
            Weather_try axios_get any_request = (Inl thrown, calls) \<and> instanceof_Error thrown \<longrightarrow>
              Weather_callTool axios_get any_request =
                (Inl (McpError InternalError
                  (''MCP error -32603: Failed to fetch data: '' @ error_message thrown)), calls)
              \<and> MCPServer_callTool axios_get any_request =
                (Inl (McpError InternalError
                  (''MCP error -32603: Failed to fetch data: '' @ error_message thrown)), calls)"
    unfolding Weather_callTool_def MCPServer_callTool_def try_blocks_agree [symmetric]
    by (simp add: Weather_catch_def MCPServer_catch_def new_McpError_def)
  show ?thesis
    using no_current rejected wrap by (intro conjI)
qed

text \<open>
  The service answers \<^verbatim>\<open>{}\<close>; the service answers \<^verbatim>\<open>{current: null}\<close>; the request times out.
\<close>

theorem fetch_errors_wrapped_witness:
  "Weather_callTool (\<lambda>c. Resolves (Obj []))
        \<lparr>params_name = ''get-weather'', params_arguments = weather_arguments\<rparr> =
        (Inl (McpError InternalError
          ''MCP error -32603: Failed to fetch data: No current weather data returned from Weather API''),
         [forecast_call (Str ''52.52'') (Str ''13.41'')])
   \<and> MCPServer_callTool (\<lambda>c. Resolves (Obj [(''current'', Null)]))
        \<lparr>params_name = ''get-weather'', params_arguments = weather_arguments\<rparr> =
        (Inl (McpError InternalError
          ''MCP error -32603: Failed to fetch data: No current weather data returned from Weather API''),
         [forecast_call (Str ''52.52'') (Str ''13.41'')])
   \<and> MCPServer_callTool (\<lambda>c. Rejects (JsError ''timeout of 5000ms exceeded''))
        \<lparr>params_name = ''get-weather'', params_arguments = weather_arguments\<rparr> =
        (Inl (McpError InternalError
          ''MCP error -32603: Failed to fetch data: timeout of 5000ms exceeded''),
         [forecast_call (Str ''52.52'') (Str ''13.41'')])"
  using
    fetch_errors_wrapped
      [of "\<lparr>params_name = ''get-weather'', params_arguments = weather_arguments\<rparr>"
          "[(''latitude'', Str ''52.52''), (''longitude'', Str ''13.41'')]"
          "forecast_call (Str ''52.52'') (Str ''13.41'')"
          "\<lambda>c. Resolves (Obj [])" "Obj []" "JsError []"]
    fetch_errors_wrapped
      [of "\<lparr>params_name = ''get-weather'', params_arguments = weather_arguments\<rparr>"
          "[(''latitude'', Str ''52.52''), (''longitude'', Str ''13.41'')]"
          "forecast_call (Str ''52.52'') (Str ''13.41'')"
          "\<lambda>c. Resolves (Obj [(''current'', Null)])" "Obj [(''current'', Null)]" "JsError []"]
    fetch_errors_wrapped
      [of "\<lparr>params_name = ''get-weather'', params_arguments = weather_arguments\<rparr>"
          "[(''latitude'', Str ''52.52''), (''longitude'', Str ''13.41'')]"
          "forecast_call (Str ''52.52'') (Str ''13.41'')"
          "\<lambda>c. Rejects (JsError ''timeout of 5000ms exceeded'')" "Null"
          "JsError ''timeout of 5000ms exceeded''"]
  by (simp add: weather_arguments_def)

text \<open>
  Claim C4: for every valid (latitude, longitude) pair where the upstream response
  contains a \<^verbatim>\<open>current\<close> section, the handler completes without error and returns no
  structured result payload.

  A pair is valid when both arguments are truthy and convert to a string, as every
  non-empty string does (the tool's schema declares both as strings), and the response has
  a truthy body with a truthy \<^verbatim>\<open>current\<close> (any object is): the handler issues the one call
  and resolves with \<^verbatim>\<open>undefined\<close>.
\<close>

theorem success_returns_undefined:
  assumes "params_name request = ''get-weather''"
    and "params_arguments request = Obj kvs"
    and "truthy (own_prop (Obj kvs) ''latitude'')"
    and "truthy (own_prop (Obj kvs) ''longitude'')"
    and "\<not> ToString_throws (own_prop (Obj kvs) ''latitude'')"
    and "\<not> ToString_throws (own_prop (Obj kvs) ''longitude'')"
    and "call = forecast_call (own_prop (Obj kvs) ''latitude'') (own_prop (Obj kvs) ''longitude'')"
    and "axios_get call = Resolves data"
    and "truthy data"
    and "truthy (own_prop data ''current'')"
  shows "Weather_callTool axios_get request = (Inr Undefined, [call])
       \<and> MCPServer_callTool axios_get request = (Inr Undefined, [call])"
  using assms by (simp add: callTool_defs Let_def)

text \<open>The service answers \<^verbatim>\<open>{current: {temperature_2m: 21}}\<close>.\<close>

theorem success_returns_undefined_witness:
  "Weather_callTool (\<lambda>c. Resolves (Obj [(''current'', Obj [(''temperature_2m'', Num 21)])]))
        \<lparr>params_name = ''get-weather'', params_arguments = weather_arguments\<rparr> =
        (Inr Undefined, [forecast_call (Str ''52.52'') (Str ''13.41'')])
   \<and> MCPServer_callTool (\<lambda>c. Resolves (Obj [(''current'', Obj [(''temperature_2m'', Num 21)])]))
        \<lparr>params_name = ''get-weather'', params_arguments = weather_arguments\<rparr> =
        (Inr Undefined, [forecast_call (Str ''52.52'') (Str ''13.41'')])"
  using
    success_returns_undefined
      [of "\<lparr>params_name = ''get-weather'', params_arguments = weather_arguments\<rparr>"
          "[(''latitude'', Str ''52.52''), (''longitude'', Str ''13.41'')]"
          "forecast_call (Str ''52.52'') (Str ''13.41'')"
          "\<lambda>c. Resolves (Obj [(''current'', Obj [(''temperature_2m'', Num 21)])])"
          "Obj [(''current'', Obj [(''temperature_2m'', Num 21)])]"]
  by (simp add: weather_arguments_def)

text \<open>
  Claim C10: the call-tool handler of the stdio variant and that of the HTTP variant
  compute the same function: the same checks in the same order, the same upstream call
  with the same query parameters, the same results, error classes and messages; and the
  two clients are configured alike.
\<close>

theorem variants_agree:
  "Weather_callTool = MCPServer_callTool \<and> Weather_axiosInstance = MCPServer_axiosInstance"
proof
  show "Weather_callTool = MCPServer_callTool"
  proof (intro ext)
    fix axios_get request
    show "Weather_callTool axios_get request = MCPServer_callTool axios_get request"
      unfolding Weather_callTool_def MCPServer_callTool_def
      by (simp only: try_blocks_agree catch_blocks_agree)
  qed
  show "Weather_axiosInstance = MCPServer_axiosInstance"
    unfolding Weather_axiosInstance_def MCPServer_axiosInstance_def by (rule refl)
qed

theorem variants_agree_witness:
  "Weather_callTool (\<lambda>c. Resolves (Obj []))
        \<lparr>params_name = ''get-weather'', params_arguments = weather_arguments\<rparr> =
   MCPServer_callTool (\<lambda>c. Resolves (Obj []))
        \<lparr>params_name = ''get-weather'', params_arguments = weather_arguments\<rparr>"
  using variants_agree by simp

section \<open>Properties of the HTTP server\<close>

subsection \<open>Notifications and timers\<close>

lemma string_of_nat_1: "string_of_nat (Suc 0) = ''1''"
  by (simp add: string_of_nat.simps [of "Suc 0"] digit_def)

lemma string_of_nat_2: "string_of_nat (Suc (Suc 0)) = ''2''"
  by (simp add: string_of_nat.simps [of "Suc (Suc 0)"] digit_def)

lemma sent_sendNotification:
  "sent (not_awaited (sendNotification E t n s)) =
     sent s @ [(t, Obj (set_prop ''jsonrpc'' (Str ''2.0'') n))]"
  by (simp add: sendNotification_def not_awaited_def JSON_RPC_def Let_def split: option.split)

lemma unhandled_sendNotification:
  "unhandled (not_awaited (sendNotification E t n s)) =
     unhandled s @
       (case send E t (Obj (set_prop ''jsonrpc'' (Str ''2.0'') n)) of None \<Rightarrow> [] | Some e \<Rightarrow> [e])"
  by (simp add: sendNotification_def not_awaited_def JSON_RPC_def Let_def split: option.split)

lemma frame_sendNotification:
  "transports (not_awaited (sendNotification E t n s)) = transports s"
  "intervals (not_awaited (sendNotification E t n s)) = intervals s"
  "console (not_awaited (sendNotification E t n s)) = console s"
  "toolInterval (not_awaited (sendNotification E t n s)) = toolInterval s"
  "next_transport (not_awaited (sendNotification E t n s)) = next_transport s"
  "server_closed (not_awaited (sendNotification E t n s)) = server_closed s"
  by (simp_all add: sendNotification_def not_awaited_def Let_def split: option.split)

lemma frame_write_console:
  "transports (write_console l s) = transports s"
  "intervals (write_console l s) = intervals s"
  "sent (write_console l s) = sent s"
  "unhandled (write_console l s) = unhandled s"
  "toolInterval (write_console l s) = toolInterval s"
  "next_transport (write_console l s) = next_transport s"
  "server_closed (write_console l s) = server_closed s"
  "console (write_console l s) = console s @ [l]"
  by (simp_all add: write_console_def)

lemma streamMessages_fields:
  "sent (streamMessages E t s) =
     sent s @ [(t, Obj (logging_message ''SSE Connection established'' @ [(''jsonrpc'', Str ''2.0'')]))]"
  "intervals (streamMessages E t s) =
     intervals s @ [\<lparr>stream_transport = t, messageCount = 0, active = True\<rparr>]"
  "transports (streamMessages E t s) = transports s"
  "toolInterval (streamMessages E t s) = toolInterval s"
  by (simp_all add: streamMessages_def Let_def sent_sendNotification frame_sendNotification
      logging_message_def)

text \<open>A cancelled interval never runs its callback again.\<close>

lemma fire_cancelled:
  "i < length (intervals s) \<Longrightarrow> \<not> active (intervals s ! i) \<Longrightarrow> fold (fire_stream E i) ticks s = s"
  by (induction ticks) (simp_all add: fire_stream_def)

lemma first_firing:
  assumes "i < length (intervals s)"
    and "intervals s ! i = \<lparr>stream_transport = t, messageCount = 0, active = True\<rparr>"
  shows "sent (fire_stream E i t1 s) =
           sent s @ [(t, Obj (logging_message (''Message 1 at '' @ t1) @ [(''jsonrpc'', Str ''2.0'')]))]"
    and "intervals (fire_stream E i t1 s) =
           (intervals s)[i := \<lparr>stream_transport = t, messageCount = 1, active = True\<rparr>]"
  using assms
  by (simp_all add: fire_stream_def stream_callback_def Let_def frame_write_console
      sent_sendNotification frame_sendNotification string_of_nat_1 logging_message_def)

lemma second_firing:
  assumes "i < length (intervals s)"
    and "intervals s ! i = \<lparr>stream_transport = t, messageCount = 1, active = True\<rparr>"
  shows "sent (fire_stream E i t2 s) = sent s @
            [(t, Obj (logging_message (''Message 2 at '' @ t2) @ [(''jsonrpc'', Str ''2.0'')])),
             (t, Obj (logging_message ''Streaming complete!'' @ [(''jsonrpc'', Str ''2.0'')]))]"
    and "intervals (fire_stream E i t2 s) =
           (intervals s)[i := \<lparr>stream_transport = t, messageCount = 2, active = False\<rparr>]"
  using assms
  by (simp_all add: fire_stream_def stream_callback_def Let_def frame_write_console
      sent_sendNotification frame_sendNotification string_of_nat_2 logging_message_def
      numeral_2_eq_2)

text \<open>
  The whole life of the interval that \<^verbatim>\<open>streamMessages\<close> sets: two firings do the work, and
  any later firing finds it cancelled.
\<close>

lemma stream_run:
  fixes E t s t1 t2 later
  defines "i \<equiv> length (intervals s)"
  defines "final \<equiv> fold (fire_stream E i) (t1 # t2 # later) (streamMessages E t s)"
  shows "sent final = sent s @
            [(t, Obj (logging_message ''SSE Connection established'' @ [(''jsonrpc'', Str ''2.0'')])),
             (t, Obj (logging_message (''Message 1 at '' @ t1) @ [(''jsonrpc'', Str ''2.0'')])),
             (t, Obj (logging_message (''Message 2 at '' @ t2) @ [(''jsonrpc'', Str ''2.0'')])),
             (t, Obj (logging_message ''Streaming complete!'' @ [(''jsonrpc'', Str ''2.0'')]))]"
    and "\<not> active (intervals final ! i)"
proof -
  let ?s0 = "streamMessages E t s"
  let ?s1 = "fire_stream E i t1 ?s0"
  let ?s2 = "fire_stream E i t2 ?s1"
  have i0: "i < length (intervals ?s0)"
    "intervals ?s0 ! i = \<lparr>stream_transport = t, messageCount = 0, active = True\<rparr>"
    by (simp_all add: streamMessages_fields i_def)
  have i1: "i < length (intervals ?s1)"
    "intervals ?s1 ! i = \<lparr>stream_transport = t, messageCount = 1, active = True\<rparr>"
    using i0 by (simp_all add: first_firing [OF i0])
  have i2: "i < length (intervals ?s2)"
    "intervals ?s2 ! i = \<lparr>stream_transport = t, messageCount = 2, active = False\<rparr>"
    using i1 by (simp_all add: second_firing [OF i1])
  have fin: "final = ?s2"
    unfolding final_def using i2 by (simp add: fire_cancelled)
  show "sent final = sent s @
            [(t, Obj (logging_message ''SSE Connection established'' @ [(''jsonrpc'', Str ''2.0'')])),
             (t, Obj (logging_message (''Message 1 at '' @ t1) @ [(''jsonrpc'', Str ''2.0'')])),
             (t, Obj (logging_message (''Message 2 at '' @ t2) @ [(''jsonrpc'', Str ''2.0'')])),
             (t, Obj (logging_message ''Streaming complete!'' @ [(''jsonrpc'', Str ''2.0'')]))]"
    by (simp add: fin second_firing(1) [OF i1] first_firing(1) [OF i0] streamMessages_fields(1))
  show "\<not> active (intervals final ! i)"
    by (simp add: fin i2)
qed

lemma handleGet_established:
  assumes "fst (handleGetRequest E uuid req s) = ByTransport t"
  shows "\<exists>s2. snd (handleGetRequest E uuid req s) = streamMessages E t s2
              \<and> sent s2 = sent s \<and> intervals s2 = intervals s"
  using assms
  by (auto simp add: handleGetRequest_def Let_def frame_write_console
      split: option.splits member.splits if_splits)

lemma fold_send_fields:
  "transports (fold (\<lambda>t s'. not_awaited (sendNotification E t n s')) ts s) = transports s"
  "intervals (fold (\<lambda>t s'. not_awaited (sendNotification E t n s')) ts s) = intervals s"
  "console (fold (\<lambda>t s'. not_awaited (sendNotification E t n s')) ts s) = console s"
  "toolInterval (fold (\<lambda>t s'. not_awaited (sendNotification E t n s')) ts s) = toolInterval s"
  by (induction ts arbitrary: s) (simp_all add: frame_sendNotification)

lemma fold_send_sent:
  "sent (fold (\<lambda>t s'. not_awaited (sendNotification E t n s')) ts s) =
     sent s @ map (\<lambda>t. (t, Obj (set_prop ''jsonrpc'' (Str ''2.0'') n))) ts"
  by (induction ts arbitrary: s) (simp_all add: sent_sendNotification)

lemma fold_send_unhandled:
  "unhandled (fold (\<lambda>t s'. not_awaited (sendNotification E t n s')) ts s) =
     unhandled s @ List.map_filter (\<lambda>t. send E t (Obj (set_prop ''jsonrpc'' (Str ''2.0'') n))) ts"
  by (induction ts arbitrary: s)
     (simp_all add: unhandled_sendNotification List.map_filter_simps split: option.split)

lemma fire_stream_fields:
  "transports (fire_stream E i time s) = transports s"
  "toolInterval (fire_stream E i time s) = toolInterval s"
  "length (intervals (fire_stream E i time s)) = length (intervals s)"
  by (simp_all add: fire_stream_def stream_callback_def Let_def frame_write_console
      frame_sendNotification)

lemma fire_stream_other:
  "j \<noteq> i \<Longrightarrow> intervals (fire_stream E j time s) ! i = intervals s ! i"
  by (simp add: fire_stream_def stream_callback_def Let_def frame_write_console
      frame_sendNotification)

subsection \<open>The request handlers and the session map\<close>

lemma keys_set_prop: "fst ` set (set_prop k v ps) = insert k (fst ` set ps)"
  by (induction ps) auto

lemma transports_handleGet: "transports (snd (handleGetRequest E uuid req s)) = transports s"
  by (simp add: handleGetRequest_def Let_def frame_write_console streamMessages_fields
      split: option.split member.split)

lemma intervals_handleGet:
  "\<exists>new. intervals (snd (handleGetRequest E uuid req s)) = intervals s @ new"
  by (simp add: handleGetRequest_def Let_def frame_write_console streamMessages_fields
      split: option.split member.split)

lemma intervals_handlePost: "intervals (snd (handlePostRequest E uuid req s)) = intervals s"
  by (simp add: handlePostRequest_def handlePost_try_def Let_def frame_write_console
      split: option.split member.split sum.split prod.split)

lemma keys_handlePost:
  "fst ` set (transports s) \<subseteq> fst ` set (transports (snd (handlePostRequest E uuid req s)))"
  by (auto simp add: handlePostRequest_def handlePost_try_def Let_def frame_write_console
      keys_set_prop split: option.split member.split)

text \<open>
  A request without a session header, with an empty one, or with one that is neither a
  key of \<^verbatim>\<open>transports\<close> nor a member of \<^verbatim>\<open>Object.prototype\<close>: GET answers 400, and so does
  POST unless the body is initialize-shaped; no transport is handed the request and the
  session map stays as it is.
\<close>

lemma unknown_session_rejected:
  assumes "case session_header req of
             None \<Rightarrow> True
           | Some sid \<Rightarrow>
               sid = [] \<or> (map_of (transports s) sid = None \<and> sid \<notin> set Object_prototype_keys)"
  shows "handleGetRequest E uuid req s =
           (Json 400 (createErrorResponse uuid bad_request),
            write_console (ConsoleLog ''get request received'' None) s)"
    and "\<not> isInitializeRequest (safeParse_success E) (body req) \<Longrightarrow>
         fst (handlePostRequest E uuid req s) = Json 400 (createErrorResponse uuid bad_request)
         \<and> transports (snd (handlePostRequest E uuid req s)) = transports s
         \<and> next_transport (snd (handlePostRequest E uuid req s)) = next_transport s"
  using assms
  by (auto simp add: handleGetRequest_def handlePostRequest_def handlePost_try_def Let_def
      frame_write_console get_member_def truthy_id_def split: option.splits)

text \<open>The body of the error response has \<^verbatim>\<open>jsonrpc\<close>, \<^verbatim>\<open>error\<close> and \<^verbatim>\<open>id\<close>, and no \<^verbatim>\<open>result\<close>.\<close>

lemma error_envelope:
  "own_prop (createErrorResponse uuid m) ''jsonrpc'' = Str ''2.0''"
  "own_prop (createErrorResponse uuid m) ''error'' = Obj [(''code'', Num (-32000)), (''message'', Str m)]"
  "own_prop (createErrorResponse uuid m) ''id'' = Str uuid"
  "own_prop (createErrorResponse uuid m) ''result'' = Undefined"
  by (simp_all add: createErrorResponse_def)

text \<open>
  Claim C5: a POST request creates and registers a new session exactly when it carries
  no session identifier and its body is initialize-shaped, a batch qualifying if any
  element of it is; a POST with no session identifier and a non-qualifying body is
  rejected with a Bad-Request-class error and no session is created.

  As the handler is written, such a request makes it create a transport, connect it and
  hand it the request, and the session is registered only if the transport then reports
  an identifier: an initialize-shaped request that the transport answers without taking
  an identifier leaves the session map as it was.
\<close>

theorem initialize_without_session_id:
  "\<not> truthy_id (session_header initialize_post)
   \<and> isInitializeRequest (safeParse_success env_no_session_id) (body initialize_post)
   \<and> fst (handlePostRequest env_no_session_id example_uuid initialize_post initial_state) = ByTransport 0
   \<and> transports (snd (handlePostRequest env_no_session_id example_uuid initialize_post initial_state)) = []"
  by (simp add: handlePostRequest_def handlePost_try_def Let_def write_console_def truthy_id_def
      initialize_post_def initialize_body_def env_no_session_id_def env_ok_def initial_state_def
      isInitializeRequest_def)

text \<open>
  Claim C5, as the code has it: a POST without a (non-empty) session identifier and with
  an initialize-shaped body (a batch qualifies if any element does) creates a new
  transport; the session is registered under the identifier the transport reports when
  connecting and handling succeed and that identifier is non-empty, and in every other
  case the session map is unchanged; no other POST creates a transport; a POST without
  session identifier and with a non-qualifying body is answered 400 Bad Request.
\<close>

theorem post_creates_session:
  "(\<not> truthy_id (session_header req) \<and> isInitializeRequest (safeParse_success E) (body req)
      \<and> connect E (next_transport s) = None \<and> handleRequest E (next_transport s) req = None
      \<and> sessionId_after E (next_transport s) req = Some sid \<and> sid \<noteq> [] \<longrightarrow>
        fst (handlePostRequest E uuid req s) = ByTransport (next_transport s)
        \<and> transports (snd (handlePostRequest E uuid req s)) =
            set_prop sid (next_transport s) (transports s))
   \<and> (\<not> (\<not> truthy_id (session_header req) \<and> isInitializeRequest (safeParse_success E) (body req)
          \<and> connect E (next_transport s) = None \<and> handleRequest E (next_transport s) req = None
          \<and> truthy_id (sessionId_after E (next_transport s) req)) \<longrightarrow>
        transports (snd (handlePostRequest E uuid req s)) = transports s)
   \<and> next_transport (snd (handlePostRequest E uuid req s)) =
        (if \<not> truthy_id (session_header req) \<and> isInitializeRequest (safeParse_success E) (body req)
         then Suc (next_transport s) else next_transport s)
   \<and> (\<not> truthy_id (session_header req) \<and> \<not> isInitializeRequest (safeParse_success E) (body req) \<longrightarrow>
        fst (handlePostRequest E uuid req s) = Json 400 (createErrorResponse uuid bad_request))
   \<and> isInitializeRequest (safeParse_success E) (Arr requests) =
        list_ex (safeParse_success E) requests"
proof (intro conjI)
  show "\<not> truthy_id (session_header req) \<and> isInitializeRequest (safeParse_success E) (body req)
      \<and> connect E (next_transport s) = None \<and> handleRequest E (next_transport s) req = None
      \<and> sessionId_after E (next_transport s) req = Some sid \<and> sid \<noteq> [] \<longrightarrow>
        fst (handlePostRequest E uuid req s) = ByTransport (next_transport s)
        \<and> transports (snd (handlePostRequest E uuid req s)) =
            set_prop sid (next_transport s) (transports s)"
    by (auto simp add: handlePostRequest_def handlePost_try_def truthy_id_def Let_def
        frame_write_console split: option.splits)
  show "\<not> (\<not> truthy_id (session_header req) \<and> isInitializeRequest (safeParse_success E) (body req)
          \<and> connect E (next_transport s) = None \<and> handleRequest E (next_transport s) req = None
          \<and> truthy_id (sessionId_after E (next_transport s) req)) \<longrightarrow>
        transports (snd (handlePostRequest E uuid req s)) = transports s"
    by (auto simp add: handlePostRequest_def handlePost_try_def truthy_id_def Let_def
        frame_write_console split: option.splits member.splits)
  show "next_transport (snd (handlePostRequest E uuid req s)) =
        (if \<not> truthy_id (session_header req) \<and> isInitializeRequest (safeParse_success E) (body req)
         then Suc (next_transport s) else next_transport s)"
    by (auto simp add: handlePostRequest_def handlePost_try_def truthy_id_def Let_def
        frame_write_console split: option.splits member.splits)
  show "\<not> truthy_id (session_header req) \<and> \<not> isInitializeRequest (safeParse_success E) (body req) \<longrightarrow>
        fst (handlePostRequest E uuid req s) = Json 400 (createErrorResponse uuid bad_request)"
    by (auto simp add: handlePostRequest_def handlePost_try_def truthy_id_def Let_def
        frame_write_console split: option.splits)
  show "isInitializeRequest (safeParse_success E) (Arr requests) =
        list_ex (safeParse_success E) requests"
    by (simp add: isInitializeRequest_def)
qed

text \<open>
  The first POST of a client registers its session; a POST of \<^verbatim>\<open>{}\<close> without a session
  header is answered 400; a batch with one initialize request among others qualifies.
\<close>

theorem post_creates_session_witness:
  "fst (handlePostRequest env_ok example_uuid initialize_post initial_state) = ByTransport 0
   \<and> transports (snd (handlePostRequest env_ok example_uuid initialize_post initial_state)) =
       [(example_session, 0)]
   \<and> fst (handlePostRequest env_ok example_uuid \<lparr>session_header = None, body = Obj []\<rparr> initial_state) =
       Json 400 (createErrorResponse example_uuid bad_request)
   \<and> transports (snd (handlePostRequest env_ok example_uuid
                        \<lparr>session_header = None, body = Obj []\<rparr> initial_state)) = []
   \<and> isInitializeRequest (safeParse_success env_ok) (Arr [Obj [], initialize_body])"
  using
    post_creates_session
      [of initialize_post env_ok initial_state example_session example_uuid "[Obj [], initialize_body]"]
    post_creates_session
      [of "\<lparr>session_header = None, body = Obj []\<rparr>" env_ok initial_state example_session example_uuid
          "[Obj [], initialize_body]"]
  by (simp add: truthy_id_def initialize_post_def initialize_body_def env_ok_def initial_state_def
      isInitializeRequest_def example_session_def)

text \<open>
  Claim C6: for every GET or POST request whose session header is missing or names no
  registered session (and, for POST, whose body is not initialize-shaped), the server
  responds 400 with the body
  \<^verbatim>\<open>{jsonrpc: "2.0", error: {code: -32000, message: "Bad Request: invalid session ID or method."}, id}\<close>
  and the request never reaches a transport.

  The handlers test \<^verbatim>\<open>this.transports[sessionId]\<close> for truthiness, and \<^verbatim>\<open>transports\<close> is an
  ordinary object: a header that names a member of \<^verbatim>\<open>Object.prototype\<close>, such as
  \<^verbatim>\<open>constructor\<close>, passes the test although no session has that identifier. The handlers
  then call \<^verbatim>\<open>handleRequest\<close> on a value that has none: the GET handler rejects without a
  response, the POST handler answers 500. Lemma \<open>unknown_session_rejected\<close> is the claim
  for every other header.
\<close>

theorem inherited_key_passes_session_check:
  assumes "sid \<in> set Object_prototype_keys"
    and "map_of (transports s) sid = None"
  shows "fst (handleGetRequest E uuid \<lparr>session_header = Some sid, body = b\<rparr> s) =
           Rejected not_a_function
       \<and> fst (handlePostRequest E uuid \<lparr>session_header = Some sid, body = b\<rparr> s) =
           Json 500 (createErrorResponse uuid ''Internal server error.'')"
proof -
  have ne: "sid \<noteq> []"
    using assms(1) by (auto simp add: Object_prototype_keys_def)
  have m: "get_member (transports s) sid = Inherited"
    using assms by (simp add: get_member_def)
  have "fst (handleGetRequest E uuid \<lparr>session_header = Some sid, body = b\<rparr> s) =
          Rejected not_a_function"
    using ne m by (simp add: handleGetRequest_def Let_def frame_write_console)
  moreover have "fst (handlePostRequest E uuid \<lparr>session_header = Some sid, body = b\<rparr> s) =
          Json 500 (createErrorResponse uuid ''Internal server error.'')"
    using ne m by (simp add: handlePostRequest_def handlePost_try_def Let_def frame_write_console)
  ultimately show ?thesis by (rule conjI)
qed

text \<open>A new server, no session registered, and the header \<^verbatim>\<open>mcp-session-id: constructor\<close>.\<close>

theorem inherited_key_passes_session_check_witness:
  "map_of (transports initial_state) ''constructor'' = None
   \<and> \<not> isInitializeRequest (safeParse_success env_ok) (Obj [])
   \<and> fst (handleGetRequest env_ok example_uuid
            \<lparr>session_header = Some ''constructor'', body = Undefined\<rparr> initial_state) =
       Rejected (JsError ''transport.handleRequest is not a function'')
   \<and> fst (handlePostRequest env_ok example_uuid
            \<lparr>session_header = Some ''constructor'', body = Obj []\<rparr> initial_state) =
       Json 500 (Obj [(''jsonrpc'', Str ''2.0''),
                      (''error'', Obj [(''code'', Num (-32000)),
                                       (''message'', Str ''Internal server error.'')]),
                      (''id'', Str example_uuid)])"
  using
    inherited_key_passes_session_check
      [of "''constructor''" initial_state env_ok example_uuid Undefined]
    inherited_key_passes_session_check
      [of "''constructor''" initial_state env_ok example_uuid "Obj []"]
  by (simp add: Object_prototype_keys_def initial_state_def not_a_function_def
      createErrorResponse_def isInitializeRequest_def env_ok_def)

text \<open>
  Claim C7: for every session whose streaming channel is established, the stream timer
  emits exactly four notifications in this order: \<^verbatim>\<open>SSE Connection established\<close>, message
  1, message 2, then one completion message; after that it has cancelled itself and
  emits nothing further.

  The GET handler has handed the request to the transport \<open>t\<close> of the session; the
  interval it set fires at the times \<open>t1\<close>, \<open>t2\<close> and at any later ones. The calls of
  \<^verbatim>\<open>transport.send\<close> since the request are the four, whatever number of later firings,
  and the interval is no longer set.
\<close>

theorem stream_timer_sequence:
  assumes "fst (handleGetRequest E uuid req s) = ByTransport t"
  shows "sent (fold (fire_stream E (length (intervals s))) (t1 # t2 # later)
                 (snd (handleGetRequest E uuid req s))) =
           sent s @
            [(t, Obj (logging_message ''SSE Connection established'' @ [(''jsonrpc'', Str ''2.0'')])),
             (t, Obj (logging_message (''Message 1 at '' @ t1) @ [(''jsonrpc'', Str ''2.0'')])),
             (t, Obj (logging_message (''Message 2 at '' @ t2) @ [(''jsonrpc'', Str ''2.0'')])),
             (t, Obj (logging_message ''Streaming complete!'' @ [(''jsonrpc'', Str ''2.0'')]))]
       \<and> \<not> active (intervals (fold (fire_stream E (length (intervals s))) (t1 # t2 # later)
                                (snd (handleGetRequest E uuid req s)))
                     ! length (intervals s))"
proof -
  obtain s2 where s2: "snd (handleGetRequest E uuid req s) = streamMessages E t s2"
    "sent s2 = sent s" "intervals s2 = intervals s"
    using handleGet_established [OF assms] by blast
  show ?thesis
    using stream_run [where E = E and s = s2 and t = t and ?t1.0 = t1 and ?t2.0 = t2 and later = later]
    unfolding s2 by simp
qed

text \<open>The session of transport 0 opens its stream; the timer is fired three times.\<close>

theorem stream_timer_sequence_witness:
  "fst (handleGetRequest env_ok example_uuid
          \<lparr>session_header = Some example_session, body = Undefined\<rparr> two_sessions) = ByTransport 0
   \<and> map (\<lambda>(t, n). (t, own_prop (own_prop n ''params'') ''data''))
       (sent (fold (fire_stream env_ok 0)
                [''2026-01-01T00:00:01.000Z'', ''2026-01-01T00:00:02.000Z'', ''2026-01-01T00:00:03.000Z'']
                (snd (handleGetRequest env_ok example_uuid
                        \<lparr>session_header = Some example_session, body = Undefined\<rparr> two_sessions)))) =
       [(0, Str ''SSE Connection established''),
        (0, Str ''Message 1 at 2026-01-01T00:00:01.000Z''),
        (0, Str ''Message 2 at 2026-01-01T00:00:02.000Z''),
        (0, Str ''Streaming complete!'')]"
proof -
  have h: "fst (handleGetRequest env_ok example_uuid
          \<lparr>session_header = Some example_session, body = Undefined\<rparr> two_sessions) = ByTransport 0"
    by (simp add: handleGetRequest_def Let_def write_console_def get_member_def two_sessions_def
        initial_state_def env_ok_def example_session_def)
  have i: "length (intervals two_sessions) = 0" "sent two_sessions = []"
    by (simp_all add: two_sessions_def initial_state_def)
  show ?thesis
    using h stream_timer_sequence [OF h, of "''2026-01-01T00:00:01.000Z''"
        "''2026-01-01T00:00:02.000Z''" "[''2026-01-01T00:00:03.000Z'']"]
    unfolding i by (simp add: logging_message_def)
qed

text \<open>
  Claim C8: when the tool-change timer fires and broadcasts to all registered sessions,
  a send failure for one session does not prevent delivery to the remaining sessions;
  the error is logged and never propagated out of the broadcast step.

  Every registered session is sent the notification once, in the order of the session
  map, whichever of the sends fail. But a failed send is not logged: the callback calls
  the asynchronous \<^verbatim>\<open>sendNotification\<close> without awaiting it and without a \<^verbatim>\<open>catch\<close>, where
  \<^verbatim>\<open>streamMessages\<close> puts the same call in a \<^verbatim>\<open>try\<close> whose \<^verbatim>\<open>catch\<close> writes the error to the
  console. For every environment the step leaves the console as it was, and each failure
  is left as the rejection of a promise that nothing handles; what the runtime does with
  such a rejection is not part of the model.
\<close>

theorem broadcast_reaches_every_session:
  assumes "toolInterval s = Some True"
  shows "sent (fire_toolInterval E s) =
           sent s @ map (\<lambda>t. (t, Obj [(''method'', Str ''notifications/tools/list_changed''),
                                        (''jsonrpc'', Str ''2.0'')]))
                        (map snd (transports s))
       \<and> unhandled (fire_toolInterval E s) =
           unhandled s @ List.map_filter
             (\<lambda>t. send E t (Obj [(''method'', Str ''notifications/tools/list_changed''),
                                  (''jsonrpc'', Str ''2.0'')]))
             (map snd (transports s))
       \<and> console (fire_toolInterval E s) = console s
       \<and> transports (fire_toolInterval E s) = transports s"
  using assms
  by (simp add: fire_toolInterval_def tool_callback_def fold_send_sent fold_send_unhandled
      fold_send_fields tool_list_changed_def)

text \<open>
  Two sessions, and the send to the first one fails: both are sent to, the console stays
  empty and the rejection stays unhandled.
\<close>

theorem broadcast_reaches_every_session_witness:
  "toolInterval two_sessions = Some True
   \<and> sent (fire_toolInterval env_send_fails two_sessions) =
       [(0, Obj [(''method'', Str ''notifications/tools/list_changed''), (''jsonrpc'', Str ''2.0'')]),
        (1, Obj [(''method'', Str ''notifications/tools/list_changed''), (''jsonrpc'', Str ''2.0'')])]
   \<and> unhandled (fire_toolInterval env_send_fails two_sessions) = [JsError ''Not connected'']
   \<and> console (fire_toolInterval env_send_fails two_sessions) = []
   \<and> transports (fire_toolInterval env_send_fails two_sessions) =
       [(example_session, 0), (example_uuid, 1)]"
  using broadcast_reaches_every_session [of two_sessions env_send_fails]
  by (simp add: two_sessions_def initial_state_def env_send_fails_def env_ok_def
      List.map_filter_simps)

text \<open>
  Claim C9: closing a session removes its identifier-to-transport mapping from the
  session map and cancels its stream timer, and closing is idempotent; process shutdown
  cancels the global tool-change timer.

  The server has no operation that closes a session. After \<^verbatim>\<open>cleanup\<close>, which closes the
  SDK server, the session is still in the map and its stream interval is still set; a
  POST that its transport handles, whatever it asks of the transport, leaves the map as
  it is.
\<close>

theorem session_outlives_close:
  "transports (step env_ok Cleanup streaming_session) = [(example_session, 0)]
   \<and> active (intervals (step env_ok Cleanup streaming_session) ! 0)
   \<and> transports (step env_ok
        (Post example_uuid \<lparr>session_header = Some example_session, body = Null\<rparr>) streaming_session)
       = [(example_session, 0)]"
  by (simp add: cleanup_def streaming_session_def initial_state_def handlePostRequest_def
      handlePost_try_def Let_def write_console_def get_member_def env_ok_def example_session_def)

text \<open>
  Claim C9, as the code has it: no operation of the server removes an identifier from
  the session map, and no operation other than the firing of a stream timer itself
  changes that timer; \<^verbatim>\<open>cleanup\<close> (process shutdown) cancels the global tool-change timer,
  leaves the session map as it is, and a second \<^verbatim>\<open>cleanup\<close> changes nothing.
\<close>

theorem no_operation_closes_a_session:
  "(map_of (transports s) sid \<noteq> None \<longrightarrow> map_of (transports (step E op s)) sid \<noteq> None)
   \<and> (i < length (intervals s) \<and> (case op of StreamTimer j time \<Rightarrow> j \<noteq> i | _ \<Rightarrow> True) \<longrightarrow>
        intervals (step E op s) ! i = intervals s ! i)
   \<and> toolInterval (step E Cleanup s) \<noteq> Some True
   \<and> transports (step E Cleanup s) = transports s
   \<and> step E Cleanup (step E Cleanup s) = step E Cleanup s"
proof (intro conjI)
  have keys: "fst ` set (transports s) \<subseteq> fst ` set (transports (step E op s))"
  proof (cases op)
    case (Get uuid req)
    then show ?thesis by (simp add: transports_handleGet)
  next
    case (Post uuid req)
    then show ?thesis by (simp add: keys_handlePost)
  next
    case (StreamTimer j time)
    then show ?thesis by (simp add: fire_stream_fields)
  next
    case ToolTimer
    then show ?thesis by (simp add: fire_toolInterval_def tool_callback_def fold_send_fields)
  next
    case Cleanup
    then show ?thesis by (simp add: cleanup_def)
  qed
  then show "map_of (transports s) sid \<noteq> None \<longrightarrow> map_of (transports (step E op s)) sid \<noteq> None"
    by (auto simp add: map_of_eq_None_iff)
  show "i < length (intervals s) \<and> (case op of StreamTimer j time \<Rightarrow> j \<noteq> i | _ \<Rightarrow> True) \<longrightarrow>
     intervals (step E op s) ! i = intervals s ! i"
  proof (cases op)
    case (Get uuid req)
    obtain new where "intervals (snd (handleGetRequest E uuid req s)) = intervals s @ new"
      using intervals_handleGet by blast
    with Get show ?thesis by (simp add: nth_append)
  next
    case (Post uuid req)
    then show ?thesis by (simp add: intervals_handlePost)
  next
    case (StreamTimer j time)
    then show ?thesis by (simp add: fire_stream_other)
  next
    case ToolTimer
    then show ?thesis by (simp add: fire_toolInterval_def tool_callback_def fold_send_fields)
  next
    case Cleanup
    then show ?thesis by (simp add: cleanup_def)
  qed
  show "toolInterval (step E Cleanup s) \<noteq> Some True"
    by (cases "toolInterval s") (simp_all add: cleanup_def)
  show "transports (step E Cleanup s) = transports s"
    by (simp add: cleanup_def)
  show "step E Cleanup (step E Cleanup s) = step E Cleanup s"
    by (cases "toolInterval s") (simp_all add: cleanup_def)
qed

text \<open>
  The server with one streaming session: the tool-change timer fires, then \<^verbatim>\<open>cleanup\<close>
  runs.
\<close>

theorem no_operation_closes_a_session_witness:
  "map_of (transports streaming_session) example_session \<noteq> None
   \<and> map_of (transports (step env_ok ToolTimer streaming_session)) example_session \<noteq> None
   \<and> intervals (step env_ok ToolTimer streaming_session) ! 0 = intervals streaming_session ! 0
   \<and> toolInterval (step env_ok Cleanup streaming_session) = Some False
   \<and> transports (step env_ok Cleanup streaming_session) = transports streaming_session"
  using no_operation_closes_a_session [of streaming_session example_session env_ok ToolTimer 0]
  by (simp add: streaming_session_def initial_state_def cleanup_def)


end
